theory Spec2Isabelle
  imports Main "HOL-Library.Char_ord" "HOL-Library.List_Lexorder" "HOL-Library.Sublist"
begin

section \<open>Python values and exceptions\<close>

text \<open>
  The dataset is whatever \<^verbatim>\<open>json.load\<close> or the parser module hands over: nested
  dicts, lists, strings, integers, booleans and \<^verbatim>\<open>None\<close>. A dict is an association list
  in insertion order, read through \<open>map_of\<close>. Python's \<^verbatim>\<open>None\<close> is the one value
  \<open>PyNone\<close>, also where the source uses it for "absent" (\<^verbatim>\<open>_dataset_cache\<close>, the result
  of \<^verbatim>\<open>get_entry\<close>). Strings are lists of 8-bit characters, so the model covers ASCII
  text; floats are not part of the value universe.
\<close>

datatype pyval =
    PyNone
  | PyBool bool
  | PyInt int
  | PyStr string
  | PyList "pyval list"
  | PyDict "(string \<times> pyval) list"

datatype py_error =
    KeyError pyval
  | TypeError
  | AttributeError
  | ValueError string
  | FileNotFoundError
  | IsADirectoryError
  | FileExistsError
  | NotADirectoryError
  | JSONDecodeError
  | OtherError string

text \<open>\<^verbatim>\<open>obj[key]\<close> with a string key: only a dict can be subscripted by a string.\<close>

fun py_getitem :: "pyval \<Rightarrow> string \<Rightarrow> py_error + pyval" where
  "py_getitem (PyDict kvs) k =
     (case map_of kvs k of None \<Rightarrow> Inl (KeyError (PyStr k)) | Some v \<Rightarrow> Inr v)"
| "py_getitem _ k = Inl TypeError"

text \<open>\<^verbatim>\<open>obj.get(key, default)\<close>: only a dict has the method.\<close>

fun py_get :: "pyval \<Rightarrow> string \<Rightarrow> pyval \<Rightarrow> py_error + pyval" where
  "py_get (PyDict kvs) k d = Inr (case map_of kvs k of None \<Rightarrow> d | Some v \<Rightarrow> v)"
| "py_get _ k d = Inl AttributeError"

fun dict_keys :: "(string \<times> pyval) list \<Rightarrow> string list" where
  "dict_keys [] = []"
| "dict_keys ((k, v) # kvs) = k # filter (\<lambda>k'. k' \<noteq> k) (dict_keys kvs)"

text \<open>\<^verbatim>\<open>for x in obj\<close>: a list yields its elements, a string its characters, a dict its
  keys; nothing else is iterable.\<close>

fun py_iter :: "pyval \<Rightarrow> py_error + pyval list" where
  "py_iter (PyList xs) = Inr xs"
| "py_iter (PyStr s) = Inr (map (\<lambda>c. PyStr [c]) s)"
| "py_iter (PyDict kvs) = Inr (map PyStr (dict_keys kvs))"
| "py_iter _ = Inl TypeError"

fun is_substring :: "string \<Rightarrow> string \<Rightarrow> bool" where
  "is_substring s [] = (s = [])"
| "is_substring s (c # t) = (take (length s) (c # t) = s \<or> is_substring s t)"

text \<open>\<^verbatim>\<open>s in obj\<close> for a string \<open>s\<close>: element of a list, substring of a string, key of a
  dict; \<^verbatim>\<open>TypeError\<close> on anything else.\<close>

fun py_contains :: "string \<Rightarrow> pyval \<Rightarrow> py_error + bool" where
  "py_contains s (PyList xs) = Inr (PyStr s \<in> set xs)"
| "py_contains s (PyStr t) = Inr (is_substring s t)"
| "py_contains s (PyDict kvs) = Inr (s \<in> set (map fst kvs))"
| "py_contains s _ = Inl TypeError"

subsection \<open>\<^verbatim>\<open>str.upper\<close>, \<^verbatim>\<open>str.lower\<close>, \<^verbatim>\<open>str.join\<close>\<close>

definition upper_char :: "char \<Rightarrow> char" where
  "upper_char c =
     (let n = (of_char c :: nat) in if 97 \<le> n \<and> n \<le> 122 then char_of (n - 32) else c)"

definition lower_char :: "char \<Rightarrow> char" where
  "lower_char c =
     (let n = (of_char c :: nat) in if 65 \<le> n \<and> n \<le> 90 then char_of (n + 32) else c)"

definition str_upper :: "string \<Rightarrow> string" where
  "str_upper s = map upper_char s"

definition str_lower :: "string \<Rightarrow> string" where
  "str_lower s = map lower_char s"

fun str_join :: "string \<Rightarrow> string list \<Rightarrow> string" where
  "str_join sep [] = []"
| "str_join sep [x] = x"
| "str_join sep (x # y # ys) = x @ sep @ str_join sep (y # ys)"

section \<open>Module constants\<close>

definition ASI_IDS :: "string list" where
  "ASI_IDS = [''ASI01'', ''ASI02'', ''ASI03'', ''ASI04'', ''ASI05'',
              ''ASI06'', ''ASI07'', ''ASI08'', ''ASI09'', ''ASI10'']"

definition COMPONENT_THREAT_MAP :: "(string \<times> string list) list" where
  "COMPONENT_THREAT_MAP =
    [(''llm_agent'', [''ASI01'', ''ASI05'', ''ASI06'', ''ASI10'']),
     (''tool_integration'', [''ASI02'', ''ASI04'']),
     (''multi_agent'', [''ASI07'', ''ASI08'']),
     (''user_interface'', [''ASI09'']),
     (''identity_system'', [''ASI03'']),
     (''memory_store'', [''ASI06'']),
     (''code_executor'', [''ASI05'']),
     (''orchestrator'', [''ASI01'', ''ASI08'', ''ASI10'']),
     (''external_api'', [''ASI02'', ''ASI04'']),
     (''communication_layer'', [''ASI07'']),
     (''supply_chain'', [''ASI04'']),
     (''rag_system'', [''ASI01'', ''ASI06''])]"

section \<open>The process state\<close>

text \<open>
  A path is a list of components, absolute or relative to the working directory
  (\<^verbatim>\<open>pathlib\<close>'s parsing of a string into components is not modelled). The world holds
  what the module reads and writes: the global \<^verbatim>\<open>_dataset_cache\<close>, the file system (for
  each absolute path what \<^verbatim>\<open>open\<close> followed by \<^verbatim>\<open>json.load\<close> yields there, and the
  directories), the working directory, the location \<^verbatim>\<open>__file__\<close> of the module, and a
  log of the reads and provider calls attempted (ghost state, newest last).
\<close>

type_synonym parts = "string list"

datatype path = AbsPath parts | RelPath parts

datatype event = ReadFile parts | Generate | RunMain parts

record world =
  dataset_cache :: pyval
  files :: "parts \<Rightarrow> (py_error + pyval) option"
  dirs :: "parts set"
  cwd :: parts
  module_file :: path
  trace :: "event list"

text \<open>
  The parser module \<^verbatim>\<open>owasp_agentic_parser\<close> is an external collaborator of the
  accessor and a parameter of the model. \<open>parser_create\<close> is the outcome of importing it
  and calling \<^verbatim>\<open>create_owasp_agentic_top10()\<close>; \<open>parser_main\<close> is the outcome of
  importing it and calling \<^verbatim>\<open>main()\<close>, which may raise and writes files, given the
  working directory and the files present.
\<close>

record provider =
  parser_create :: "py_error + pyval"
  parser_main :: "parts \<Rightarrow> (parts \<Rightarrow> (py_error + pyval) option)
                    \<Rightarrow> py_error option \<times> (parts \<Rightarrow> (py_error + pyval) option)"

fun path_parent :: "path \<Rightarrow> path" where
  "path_parent (AbsPath ps) = AbsPath (butlast ps)"
| "path_parent (RelPath ps) = RelPath (butlast ps)"

fun path_join :: "path \<Rightarrow> string \<Rightarrow> path" where
  "path_join (AbsPath ps) name = AbsPath (ps @ [name])"
| "path_join (RelPath ps) name = RelPath (ps @ [name])"

fun resolve :: "world \<Rightarrow> path \<Rightarrow> parts" where
  "resolve w (AbsPath ps) = ps"
| "resolve w (RelPath ps) = cwd w @ ps"

definition path_exists :: "world \<Rightarrow> path \<Rightarrow> bool" where
  "path_exists w p = (files w (resolve w p) \<noteq> None \<or> resolve w p \<in> dirs w)"

text \<open>\<^verbatim>\<open>with open(path) as f: data = json.load(f)\<close>\<close>

definition read_json :: "world \<Rightarrow> path \<Rightarrow> (py_error + pyval) \<times> world" where
  "read_json w p =
     (let t = resolve w p; w1 = w\<lparr>trace := trace w @ [ReadFile t]\<rparr> in
      case files w t of
        Some r \<Rightarrow> (r, w1)
      | None \<Rightarrow> (if t \<in> dirs w then (Inl IsADirectoryError, w1) else (Inl FileNotFoundError, w1)))"

definition get_data_path :: "world \<Rightarrow> path" where
  "get_data_path w = path_join (path_parent (path_parent (module_file w))) ''data''"

section \<open>Loading\<close>

definition load_dataset ::
  "provider \<Rightarrow> path option \<Rightarrow> bool \<Rightarrow> world \<Rightarrow> (py_error + pyval) \<times> world" where
  "load_dataset prov filepath use_cache w =
     (if use_cache \<and> dataset_cache w \<noteq> PyNone then (Inr (dataset_cache w), w)
      else
        let p = (case filepath of
                   Some fp \<Rightarrow> fp
                 | None \<Rightarrow> path_join (get_data_path w) ''owasp_agentic_top10_full.json'');
            (r, w1) = (if path_exists w p then read_json w p
                       else (parser_create prov, w\<lparr>trace := trace w @ [Generate]\<rparr>))
        in case r of
             Inl e \<Rightarrow> (Inl e, w1)
           | Inr data \<Rightarrow>
               (Inr data, if use_cache then w1\<lparr>dataset_cache := data\<rparr> else w1))"

definition load_entries :: "provider \<Rightarrow> path option \<Rightarrow> world \<Rightarrow> (py_error + pyval) \<times> world" where
  "load_entries prov filepath w =
     (case filepath of
        Some fp \<Rightarrow>
          (case read_json w fp of
             (Inl e, w1) \<Rightarrow> (Inl e, w1)
           | (Inr data, w1) \<Rightarrow> (py_get data ''entries'' data, w1))
      | None \<Rightarrow>
          (case load_dataset prov None True w of
             (Inl e, w1) \<Rightarrow> (Inl e, w1)
           | (Inr data, w1) \<Rightarrow> (py_getitem data ''entries'', w1)))"

definition clear_cache :: "world \<Rightarrow> world" where
  "clear_cache w = w\<lparr>dataset_cache := PyNone\<rparr>"

section \<open>Entry access\<close>

text \<open>The loop of \<^verbatim>\<open>get_entry\<close>: it returns at the first entry whose \<^verbatim>\<open>"id"\<close> equals the
  identifier, and raises where \<^verbatim>\<open>entry["id"]\<close> does.\<close>

fun find_entry :: "string \<Rightarrow> pyval list \<Rightarrow> py_error + pyval" where
  "find_entry a [] = Inr PyNone"
| "find_entry a (entry # rest) =
     (case py_getitem entry ''id'' of
        Inl e \<Rightarrow> Inl e
      | Inr v \<Rightarrow> if v = PyStr a then Inr entry else find_entry a rest)"

definition get_entry :: "provider \<Rightarrow> string \<Rightarrow> world \<Rightarrow> (py_error + pyval) \<times> world" where
  "get_entry prov asi_id w =
     (let a = str_upper asi_id in
      case load_entries prov None w of
        (Inl e, w1) \<Rightarrow> (Inl e, w1)
      | (Inr entries, w1) \<Rightarrow>
          (case py_iter entries of
             Inl e \<Rightarrow> (Inl e, w1)
           | Inr es \<Rightarrow> (find_entry a es, w1)))"

subsection \<open>\<^verbatim>\<open>list_entry_ids\<close> and the list objects it hands out\<close>

text \<open>
  \<^verbatim>\<open>ASI_IDS.copy()\<close> allocates a new list object, so list objects live in a store:
  \<open>lists h a\<close> is the content of the list at address \<open>a\<close>, addresses below
  \<open>next_addr h\<close> are allocated, and the module's \<^verbatim>\<open>ASI_IDS\<close> is the object at
  \<open>ASI_IDS_addr\<close>. The function reads nothing of the world above.
\<close>

record pyheap =
  lists :: "nat \<Rightarrow> string list"
  next_addr :: nat

definition ASI_IDS_addr :: nat where
  "ASI_IDS_addr = 0"

definition heap_init :: pyheap where
  "heap_init = \<lparr>lists = (\<lambda>a. [])(ASI_IDS_addr := ASI_IDS), next_addr = Suc ASI_IDS_addr\<rparr>"

definition list_entry_ids :: "pyheap \<Rightarrow> nat \<times> pyheap" where
  "list_entry_ids h =
     (next_addr h,
      h\<lparr>lists := (lists h)(next_addr h := lists h ASI_IDS_addr),
        next_addr := Suc (next_addr h)\<rparr>)"

text \<open>A caller of the module calls \<^verbatim>\<open>list_entry_ids\<close> and mutates, in any way, the lists
  it was handed (the \<open>i\<close>-th result so far gets the content \<open>xs\<close>).\<close>

datatype client_op = Call_list_entry_ids | Mutate_result nat "string list"

record client =
  heap :: pyheap
  results :: "nat list"

fun client_step :: "client_op \<Rightarrow> client \<Rightarrow> client" where
  "client_step Call_list_entry_ids c =
     (let (a, h) = list_entry_ids (heap c) in \<lparr>heap = h, results = results c @ [a]\<rparr>)"
| "client_step (Mutate_result i xs) c =
     (if i < length (results c)
      then c\<lparr>heap := (heap c)\<lparr>lists := (lists (heap c))(results c ! i := xs)\<rparr>\<rparr>
      else c)"

definition client_run :: "client_op list \<Rightarrow> client" where
  "client_run ops = fold client_step ops \<lparr>heap = heap_init, results = []\<rparr>"

section \<open>Threat analysis\<close>

text \<open>The list comprehension \<^verbatim>\<open>[entry for entry in ... if entry["id"] in relevant_ids]\<close>.\<close>

fun filter_entries :: "string list \<Rightarrow> pyval list \<Rightarrow> py_error + pyval list" where
  "filter_entries relevant_ids [] = Inr []"
| "filter_entries relevant_ids (entry # rest) =
     (case py_getitem entry ''id'' of
        Inl e \<Rightarrow> Inl e
      | Inr v \<Rightarrow>
          (case filter_entries relevant_ids rest of
             Inl e \<Rightarrow> Inl e
           | Inr r \<Rightarrow> Inr (if v \<in> set (map PyStr relevant_ids) then entry # r else r)))"

definition valid_types :: string where
  "valid_types = str_join '', '' (sort (map fst COMPONENT_THREAT_MAP))"

definition unknown_component_message :: "string \<Rightarrow> string" where
  "unknown_component_message component_type =
     ''Unknown component type: '' @ [CHR 0x27] @ component_type @ [CHR 0x27] @
     ''. Valid types: '' @ valid_types"

text \<open>The argument \<open>data\<close> is \<open>PyNone\<close> for the default \<^verbatim>\<open>data=None\<close>.\<close>

definition get_threats_for_component ::
  "provider \<Rightarrow> string \<Rightarrow> pyval \<Rightarrow> world \<Rightarrow> (py_error + pyval list) \<times> world" where
  "get_threats_for_component prov component_type data w =
     (let ct = str_lower component_type in
      case map_of COMPONENT_THREAT_MAP ct of
        None \<Rightarrow> (Inl (ValueError (unknown_component_message ct)), w)
      | Some relevant_ids \<Rightarrow>
          (case (if data = PyNone then load_dataset prov None True w else (Inr data, w)) of
             (Inl e, w1) \<Rightarrow> (Inl e, w1)
           | (Inr d, w1) \<Rightarrow>
               (case py_getitem d ''entries'' of
                  Inl e \<Rightarrow> (Inl e, w1)
                | Inr entries \<Rightarrow>
                    (case py_iter entries of
                       Inl e \<Rightarrow> (Inl e, w1)
                     | Inr es \<Rightarrow> (filter_entries relevant_ids es, w1)))))"

definition get_mitigations :: "provider \<Rightarrow> string \<Rightarrow> world \<Rightarrow> (py_error + pyval) \<times> world" where
  "get_mitigations prov asi_id w =
     (case get_entry prov asi_id w of
        (Inl e, w1) \<Rightarrow> (Inl e, w1)
      | (Inr entry, w1) \<Rightarrow>
          if entry = PyNone then (Inl (ValueError (''Entry not found: '' @ asi_id)), w1)
          else (py_getitem entry ''mitigations'', w1))"

definition get_attack_scenarios :: "provider \<Rightarrow> string \<Rightarrow> world \<Rightarrow> (py_error + pyval) \<times> world" where
  "get_attack_scenarios prov asi_id w =
     (case get_entry prov asi_id w of
        (Inl e, w1) \<Rightarrow> (Inl e, w1)
      | (Inr entry, w1) \<Rightarrow>
          if entry = PyNone then (Inl (ValueError (''Entry not found: '' @ asi_id)), w1)
          else (py_getitem entry ''attack_scenarios'', w1))"

definition get_related_llm_entries :: "provider \<Rightarrow> string \<Rightarrow> world \<Rightarrow> (py_error + pyval) \<times> world" where
  "get_related_llm_entries prov asi_id w =
     (case get_entry prov asi_id w of
        (Inl e, w1) \<Rightarrow> (Inl e, w1)
      | (Inr entry, w1) \<Rightarrow>
          if entry = PyNone then (Inl (ValueError (''Entry not found: '' @ asi_id)), w1)
          else (py_getitem entry ''related_llm_entries'', w1))"

section \<open>Framework mappings\<close>

text \<open>
  The dict comprehension of \<^verbatim>\<open>get_asi_to_llm_mapping\<close> builds a dict whose keys are the
  values of \<^verbatim>\<open>entry["id"]\<close>: a map from keys to values, a later entry overwriting an
  earlier one with an equal key. Lists and dicts are unhashable; \<^verbatim>\<open>True\<close> and \<^verbatim>\<open>1\<close>
  are the same key.
\<close>

fun hashable :: "pyval \<Rightarrow> bool" where
  "hashable (PyList xs) = False"
| "hashable (PyDict kvs) = False"
| "hashable _ = True"

fun dict_key :: "pyval \<Rightarrow> pyval" where
  "dict_key (PyBool b) = PyInt (if b then 1 else 0)"
| "dict_key v = v"

fun build_mapping :: "pyval list \<Rightarrow> (pyval \<Rightarrow> pyval option) \<Rightarrow> py_error + (pyval \<Rightarrow> pyval option)" where
  "build_mapping [] m = Inr m"
| "build_mapping (entry # rest) m =
     (case py_getitem entry ''id'' of
        Inl e \<Rightarrow> Inl e
      | Inr k \<Rightarrow>
          (case py_getitem entry ''related_llm_entries'' of
             Inl e \<Rightarrow> Inl e
           | Inr v \<Rightarrow>
               if hashable k then build_mapping rest (m(dict_key k \<mapsto> v))
               else Inl TypeError))"

text \<open>\<^verbatim>\<open>mapping[key]\<close> on the dict so built.\<close>

definition mapping_getitem :: "(pyval \<Rightarrow> pyval option) \<Rightarrow> pyval \<Rightarrow> py_error + pyval" where
  "mapping_getitem m k =
     (if hashable k then (case m (dict_key k) of None \<Rightarrow> Inl (KeyError k) | Some v \<Rightarrow> Inr v)
      else Inl TypeError)"

definition get_asi_to_llm_mapping ::
  "provider \<Rightarrow> world \<Rightarrow> (py_error + (pyval \<Rightarrow> pyval option)) \<times> world" where
  "get_asi_to_llm_mapping prov w =
     (case load_entries prov None w of
        (Inl e, w1) \<Rightarrow> (Inl e, w1)
      | (Inr entries, w1) \<Rightarrow>
          (case py_iter entries of
             Inl e \<Rightarrow> (Inl e, w1)
           | Inr es \<Rightarrow> (build_mapping es Map.empty, w1)))"

text \<open>The caller's expression \<^verbatim>\<open>get_asi_to_llm_mapping()[key]\<close>.\<close>

definition asi_to_llm_mapping_at ::
  "provider \<Rightarrow> pyval \<Rightarrow> world \<Rightarrow> (py_error + pyval) \<times> world" where
  "asi_to_llm_mapping_at prov key w =
     (case get_asi_to_llm_mapping prov w of
        (Inl e, w1) \<Rightarrow> (Inl e, w1)
      | (Inr m, w1) \<Rightarrow> (mapping_getitem m key, w1))"

section \<open>Incident tracking\<close>

definition get_incidents :: "provider \<Rightarrow> world \<Rightarrow> (py_error + pyval) \<times> world" where
  "get_incidents prov w =
     (case load_dataset prov None True w of
        (Inl e, w1) \<Rightarrow> (Inl e, w1)
      | (Inr data, w1) \<Rightarrow>
          (case py_getitem data ''exploits_tracker'' of
             Inl e \<Rightarrow> (Inl e, w1)
           | Inr tracker \<Rightarrow> (py_getitem tracker ''incidents'', w1)))"

text \<open>\<^verbatim>\<open>[incident for incident in incidents if asi_id in incident.get("related_asi", [])]\<close>\<close>

fun filter_incidents :: "string \<Rightarrow> pyval list \<Rightarrow> py_error + pyval list" where
  "filter_incidents a [] = Inr []"
| "filter_incidents a (incident # rest) =
     (case py_get incident ''related_asi'' (PyList []) of
        Inl e \<Rightarrow> Inl e
      | Inr related \<Rightarrow>
          (case py_contains a related of
             Inl e \<Rightarrow> Inl e
           | Inr b \<Rightarrow>
               (case filter_incidents a rest of
                  Inl e \<Rightarrow> Inl e
                | Inr r \<Rightarrow> Inr (if b then incident # r else r))))"

definition get_incidents_by_asi ::
  "provider \<Rightarrow> string \<Rightarrow> world \<Rightarrow> (py_error + pyval list) \<times> world" where
  "get_incidents_by_asi prov asi_id w =
     (let a = str_upper asi_id in
      case get_incidents prov w of
        (Inl e, w1) \<Rightarrow> (Inl e, w1)
      | (Inr incidents, w1) \<Rightarrow>
          (case py_iter incidents of
             Inl e \<Rightarrow> (Inl e, w1)
           | Inr is \<Rightarrow> (filter_incidents a is, w1)))"

section \<open>Generation\<close>

text \<open>\<^verbatim>\<open>Path.mkdir(parents=True, exist_ok=True)\<close>, \<^verbatim>\<open>os.getcwd()\<close>, \<^verbatim>\<open>os.chdir(p)\<close>\<close>

definition mkdir :: "world \<Rightarrow> path \<Rightarrow> py_error + world" where
  "mkdir w p =
     (let t = resolve w p in
      if t \<in> dirs w then Inr w
      else if files w t \<noteq> None then Inl FileExistsError
      else if list_ex (\<lambda>q. files w q \<noteq> None) (prefixes t) then Inl NotADirectoryError
      else Inr (w\<lparr>dirs := dirs w \<union> set (prefixes t)\<rparr>))"

definition getcwd :: "world \<Rightarrow> py_error + parts" where
  "getcwd w = (if cwd w \<in> dirs w then Inr (cwd w) else Inl FileNotFoundError)"

definition chdir :: "world \<Rightarrow> path \<Rightarrow> py_error + world" where
  "chdir w p =
     (let t = resolve w p in
      if t \<in> dirs w then Inr (w\<lparr>cwd := t\<rparr>)
      else if files w t \<noteq> None then Inl NotADirectoryError
      else Inl FileNotFoundError)"

definition output_files :: "path \<Rightarrow> (string \<times> path) list" where
  "output_files output_path =
    [(''full_json'', path_join output_path ''owasp_agentic_top10_full.json''),
     (''full_yaml'', path_join output_path ''owasp_agentic_top10_full.yaml''),
     (''entries_json'', path_join output_path ''owasp_agentic_top10_entries.json''),
     (''entries_yaml'', path_join output_path ''owasp_agentic_top10_entries.yaml''),
     (''mappings_json'', path_join output_path ''owasp_agentic_top10_mappings.json''),
     (''mappings_yaml'', path_join output_path ''owasp_agentic_top10_mappings.yaml''),
     (''simplified_json'', path_join output_path ''owasp_agentic_top10_simplified.json''),
     (''simplified_yaml'', path_join output_path ''owasp_agentic_top10_simplified.yaml'')]"

text \<open>The world in which the parser's \<^verbatim>\<open>main()\<close> runs, and the world it leaves.\<close>

definition run_parser_main :: "provider \<Rightarrow> world \<Rightarrow> py_error option \<times> world" where
  "run_parser_main prov w =
     (let (r, fs) = parser_main prov (cwd w) (files w) in
      (r, w\<lparr>files := fs, trace := trace w @ [RunMain (cwd w)]\<rparr>))"

definition generate_all_formats ::
  "provider \<Rightarrow> path \<Rightarrow> world \<Rightarrow> (py_error + (string \<times> path) list) \<times> world" where
  "generate_all_formats prov output_dir w =
     (case mkdir w output_dir of
        Inl e \<Rightarrow> (Inl e, w)
      | Inr w1 \<Rightarrow>
          (case getcwd w1 of
             Inl e \<Rightarrow> (Inl e, w1)
           | Inr original_dir \<Rightarrow>
               (case chdir w1 output_dir of
                  Inl e \<Rightarrow> (Inl e, w1)
                | Inr w2 \<Rightarrow>
                    (let (r, w3) = run_parser_main prov w2 in
                     case chdir w3 (AbsPath original_dir) of
                       Inl e \<Rightarrow> (Inl e, w3)
                     | Inr w4 \<Rightarrow>
                         (case r of
                            Some e \<Rightarrow> (Inl e, w4)
                          | None \<Rightarrow> (Inr (output_files output_dir), w4))))))"

section \<open>An invariant of the list store\<close>

text \<open>The module's \<^verbatim>\<open>ASI_IDS\<close> holds its initial content, and every list handed to the
  caller is an allocated object other than \<^verbatim>\<open>ASI_IDS\<close>.\<close>

definition client_inv :: "client \<Rightarrow> bool" where
  "client_inv c =
     (lists (heap c) ASI_IDS_addr = ASI_IDS \<and> ASI_IDS_addr < next_addr (heap c) \<and>
      list_all (\<lambda>a. ASI_IDS_addr < a \<and> a < next_addr (heap c)) (results c))"

section \<open>Well-formed data\<close>

text \<open>What the properties below ask of the loaded data: an entry is a dict that has the
  field read, an incident is a dict whose \<^verbatim>\<open>"related_asi"\<close>, where present, is a list.\<close>

definition has_field :: "string \<Rightarrow> pyval \<Rightarrow> bool" where
  "has_field k e = (case py_getitem e k of Inl err \<Rightarrow> False | Inr v \<Rightarrow> True)"

definition has_id :: "string \<Rightarrow> pyval \<Rightarrow> bool" where
  "has_id a e = (py_getitem e ''id'' = Inr (PyStr a))"

definition id_in :: "string list \<Rightarrow> pyval \<Rightarrow> bool" where
  "id_in ids e = list_ex (\<lambda>a. has_id a e) ids"

definition hashable_id :: "pyval \<Rightarrow> bool" where
  "hashable_id e = (case py_getitem e ''id'' of Inl err \<Rightarrow> False | Inr v \<Rightarrow> hashable v)"

definition related_asi :: "pyval \<Rightarrow> pyval list option" where
  "related_asi incident =
     (case py_get incident ''related_asi'' (PyList []) of
        Inr (PyList xs) \<Rightarrow> Some xs
      | _ \<Rightarrow> None)"

definition linked_to :: "string \<Rightarrow> pyval \<Rightarrow> bool" where
  "linked_to a incident =
     (case related_asi incident of Some xs \<Rightarrow> PyStr a \<in> set xs | None \<Rightarrow> False)"

section \<open>Example data\<close>

text \<open>A small dataset of the documented shape, a world whose default dataset file holds
  it, and providers that generate it, write nothing, or fail.\<close>

definition example_entry :: "string \<Rightarrow> string \<Rightarrow> string list \<Rightarrow> pyval" where
  "example_entry i title related =
     PyDict [(''id'', PyStr i), (''title'', PyStr title),
             (''mitigations'', PyList [PyStr (''Mitigate '' @ i)]),
             (''attack_scenarios'',
                PyList [PyDict [(''name'', PyStr ''Scenario''), (''description'', PyStr title)]]),
             (''related_llm_entries'', PyList (map PyStr related))]"

definition example_entries :: "pyval list" where
  "example_entries =
    [example_entry ''ASI01'' ''Agent Goal Hijack''
       [''LLM01:2025 Prompt Injection'', ''LLM06:2025 Excessive Agency''],
     example_entry ''ASI02'' ''Tool Misuse & Exploitation'' [''LLM06:2025 Excessive Agency''],
     example_entry ''ASI03'' ''Identity & Privilege Abuse'' [],
     example_entry ''ASI04'' ''Agentic Supply Chain Vulnerabilities'' [''LLM03:2025 Supply Chain''],
     example_entry ''ASI05'' ''Unexpected Code Execution (RCE)'' [],
     example_entry ''ASI06'' ''Memory & Context Poisoning'' [],
     example_entry ''ASI07'' ''Insecure Inter-Agent Communication'' [],
     example_entry ''ASI08'' ''Cascading Failures'' [],
     example_entry ''ASI09'' ''Human-Agent Trust Exploitation'' [],
     example_entry ''ASI10'' ''Rogue Agents'' []]"

definition example_incidents :: "pyval list" where
  "example_incidents =
    [PyDict [(''name'', PyStr ''EchoLeak''),
             (''related_asi'', PyList [PyStr ''ASI01'', PyStr ''ASI06''])],
     PyDict [(''name'', PyStr ''Unlinked'')],
     PyDict [(''name'', PyStr ''Poisoned memory''), (''related_asi'', PyList [PyStr ''ASI06''])]]"

definition example_dataset :: pyval where
  "example_dataset =
     PyDict [(''metadata'', PyDict [(''version'', PyStr ''2026'')]),
             (''entries'', PyList example_entries),
             (''exploits_tracker'', PyDict [(''incidents'', PyList example_incidents)])]"

definition reversed_dataset :: pyval where
  "reversed_dataset = PyDict [(''entries'', PyList (rev example_entries))]"

definition other_dataset :: pyval where
  "other_dataset = PyDict [(''entries'', PyList [example_entry ''ASI01'' ''Stale'' []])]"

definition example_world :: world where
  "example_world =
     \<lparr>dataset_cache = PyNone,
      files = [[''pkg'', ''data'', ''owasp_agentic_top10_full.json''] \<mapsto> Inr example_dataset,
               [''tmp'', ''entries.json''] \<mapsto> Inr (PyList example_entries)],
      dirs = {[], [''pkg''], [''pkg'', ''data''], [''tmp''], [''home'']},
      cwd = [''home''],
      module_file = AbsPath [''pkg'', ''src'', ''__init__.py''],
      trace = []\<rparr>"

definition example_loaded :: world where
  "example_loaded =
     example_world\<lparr>dataset_cache := example_dataset,
                   trace := [ReadFile [''pkg'', ''data'', ''owasp_agentic_top10_full.json'']]\<rparr>"

definition duplicate_entries :: "pyval list" where
  "duplicate_entries =
     [example_entry ''ASI01'' ''Agent Goal Hijack'' [''LLM01:2025 Prompt Injection''],
      example_entry ''ASI01'' ''Agent Goal Hijack'' [''LLM06:2025 Excessive Agency'']]"

definition duplicate_world :: world where
  "duplicate_world =
     example_world\<lparr>dataset_cache := PyDict [(''entries'', PyList duplicate_entries)]\<rparr>"

definition example_made :: world where
  "example_made = example_world\<lparr>dirs := dirs example_world \<union> set (prefixes [''home'', ''out''])\<rparr>"

definition quiet_provider :: provider where
  "quiet_provider = \<lparr>parser_create = Inr example_dataset, parser_main = (\<lambda>d fs. (None, fs))\<rparr>"

definition faulting_provider :: provider where
  "faulting_provider =
     \<lparr>parser_create = Inl (OtherError ''generator failed''),
      parser_main = (\<lambda>d fs. (Some (OtherError ''generation failed''), fs))\<rparr>"

section \<open>The dataset cache\<close>

lemma clear_cache_empties: "dataset_cache (clear_cache w) = PyNone"
  by (simp add: clear_cache_def)

lemma clear_cache_idem: "clear_cache (clear_cache w) = clear_cache w"
  by (simp add: clear_cache_def)

lemma clear_cache_noop: "dataset_cache w = PyNone \<Longrightarrow> clear_cache w = w"
  by (simp add: clear_cache_def)

lemma clear_cache_fields:
  "files (clear_cache w) = files w" "dirs (clear_cache w) = dirs w"
  "cwd (clear_cache w) = cwd w" "module_file (clear_cache w) = module_file w"
  "trace (clear_cache w) = trace w"
  by (simp_all add: clear_cache_def)

lemma read_json_fst:
  "fst (read_json w p) =
     (case files w (resolve w p) of
        Some r \<Rightarrow> r
      | None \<Rightarrow> if resolve w p \<in> dirs w then Inl IsADirectoryError else Inl FileNotFoundError)"
  by (simp add: read_json_def Let_def split: option.splits)

lemma read_json_snd: "snd (read_json w p) = w\<lparr>trace := trace w @ [ReadFile (resolve w p)]\<rparr>"
  by (simp add: read_json_def Let_def split: option.splits)

lemma clear_cache_env:
  "path_exists (clear_cache w) p = path_exists w p"
  "resolve (clear_cache w) p = resolve w p"
  "get_data_path (clear_cache w) = get_data_path w"
  "fst (read_json (clear_cache w) p) = fst (read_json w p)"
  by (cases p; simp add: path_exists_def get_data_path_def read_json_fst clear_cache_fields)+

lemma load_dataset_hit:
  "dataset_cache w \<noteq> PyNone \<Longrightarrow> load_dataset prov fp True w = (Inr (dataset_cache w), w)"
  by (simp add: load_dataset_def)

text \<open>Past the cache test, \<^verbatim>\<open>load_dataset\<close> reads the file if the path exists and calls the
  generator otherwise, and stores a result only under \<^verbatim>\<open>use_cache\<close>.\<close>

lemma load_dataset_miss:
  assumes "\<not> (uc \<and> dataset_cache w \<noteq> PyNone)"
  shows "load_dataset prov fp uc w =
     (let p = (case fp of
                 Some f \<Rightarrow> f
               | None \<Rightarrow> path_join (get_data_path w) ''owasp_agentic_top10_full.json'');
          r = (if path_exists w p then fst (read_json w p) else parser_create prov);
          w1 = w\<lparr>trace := trace w @ [if path_exists w p then ReadFile (resolve w p) else Generate]\<rparr>
      in (r, case r of Inl e \<Rightarrow> w1 | Inr data \<Rightarrow> if uc then w1\<lparr>dataset_cache := data\<rparr> else w1))"
  using assms unfolding load_dataset_def Let_def
  by (cases "read_json w (case fp of Some f \<Rightarrow> f
                | None \<Rightarrow> path_join (get_data_path w) ''owasp_agentic_top10_full.json'')")
     (auto simp: read_json_snd[symmetric] split: sum.splits prod.splits)

lemma trace_after_store:
  "trace (case r of Inl e \<Rightarrow> w1 | Inr d \<Rightarrow> if uc then w1\<lparr>dataset_cache := d\<rparr> else w1) = trace w1"
  by (simp split: sum.splits)

text \<open>
  Claim C6. \<^verbatim>\<open>clear_cache\<close> empties the cache, is idempotent, and changes nothing (and
  cannot fail) when nothing is cached. With \<^verbatim>\<open>use_cache\<close> and a cached dataset,
  \<^verbatim>\<open>load_dataset\<close> returns the cached dataset and leaves the whole state, the log of
  reads and generator calls included, as it was. After \<^verbatim>\<open>clear_cache\<close> the next
  \<^verbatim>\<open>load_dataset\<close> returns what the load path yields (the file's content if the path
  exists, the generator's result otherwise) and logs that one read or generator call.
\<close>

theorem cache_state_machine:
  "dataset_cache (clear_cache w) = PyNone \<and>
   clear_cache (clear_cache w) = clear_cache w \<and>
   (dataset_cache w = PyNone \<longrightarrow> clear_cache w = w) \<and>
   (dataset_cache w \<noteq> PyNone \<longrightarrow> load_dataset prov fp True w = (Inr (dataset_cache w), w)) \<and>
   (let p = (case fp of
               Some f \<Rightarrow> f
             | None \<Rightarrow> path_join (get_data_path w) ''owasp_agentic_top10_full.json'')
    in fst (load_dataset prov fp uc (clear_cache w)) =
         (if path_exists w p then fst (read_json w p) else parser_create prov) \<and>
       trace (snd (load_dataset prov fp uc (clear_cache w))) =
         trace w @ [if path_exists w p then ReadFile (resolve w p) else Generate])"
proof -
  have miss: "\<not> (uc \<and> dataset_cache (clear_cache w) \<noteq> PyNone)"
    by (simp add: clear_cache_empties)
  show ?thesis
    by (cases fp)
       (simp_all add: clear_cache_empties clear_cache_idem clear_cache_noop load_dataset_hit
          load_dataset_miss[OF miss] Let_def clear_cache_env clear_cache_fields trace_after_store)
qed

theorem cache_state_machine_witness:
  "dataset_cache (example_world\<lparr>dataset_cache := other_dataset\<rparr>) \<noteq> PyNone \<and>
   load_dataset faulting_provider None True (example_world\<lparr>dataset_cache := other_dataset\<rparr>) =
     (Inr other_dataset, example_world\<lparr>dataset_cache := other_dataset\<rparr>) \<and>
   fst (load_dataset faulting_provider None True
          (clear_cache (example_world\<lparr>dataset_cache := other_dataset\<rparr>))) = Inr example_dataset \<and>
   trace (snd (load_dataset faulting_provider None True
          (clear_cache (example_world\<lparr>dataset_cache := other_dataset\<rparr>)))) =
     [ReadFile [''pkg'', ''data'', ''owasp_agentic_top10_full.json'']] \<and>
   dataset_cache example_world = PyNone \<and>
   clear_cache example_world = example_world"
  using cache_state_machine
          [of "example_world\<lparr>dataset_cache := other_dataset\<rparr>" faulting_provider None True]
        cache_state_machine [of example_world faulting_provider None True]
  by (simp add: Let_def get_data_path_def example_world_def other_dataset_def path_exists_def
        read_json_fst)

text \<open>
  Claim C10. \<^verbatim>\<open>load_dataset\<close> with \<^verbatim>\<open>use_cache=False\<close> leaves \<^verbatim>\<open>_dataset_cache\<close> as it
  was, whether it was empty or held a dataset, and whatever the load produced; so a later
  call with \<^verbatim>\<open>use_cache=True\<close> still returns the dataset cached before.
\<close>

theorem load_dataset_no_cache_frame:
  "dataset_cache (snd (load_dataset prov fp False w)) = dataset_cache w \<and>
   (dataset_cache w \<noteq> PyNone \<longrightarrow>
      fst (load_dataset prov fp2 True (snd (load_dataset prov fp False w))) =
        Inr (dataset_cache w))"
proof -
  have kept: "dataset_cache (snd (load_dataset prov fp False w)) = dataset_cache w"
    by (simp add: load_dataset_miss Let_def split: sum.splits)
  then show ?thesis
    by (simp add: load_dataset_hit)
qed

theorem load_dataset_no_cache_frame_witness:
  "dataset_cache (example_world\<lparr>dataset_cache := other_dataset\<rparr>) \<noteq> PyNone \<and>
   fst (load_dataset quiet_provider None False (example_world\<lparr>dataset_cache := other_dataset\<rparr>)) =
     Inr example_dataset \<and>
   dataset_cache (snd (load_dataset quiet_provider None False
                         (example_world\<lparr>dataset_cache := other_dataset\<rparr>))) = other_dataset \<and>
   fst (load_dataset quiet_provider None True
          (snd (load_dataset quiet_provider None False
                  (example_world\<lparr>dataset_cache := other_dataset\<rparr>)))) = Inr other_dataset"
proof -
  have fresh: "fst (load_dataset quiet_provider None False
                      (example_world\<lparr>dataset_cache := other_dataset\<rparr>)) = Inr example_dataset"
    by (simp add: load_dataset_miss Let_def get_data_path_def example_world_def path_exists_def
          read_json_fst)
  have cached: "other_dataset \<noteq> PyNone"
    by (simp add: other_dataset_def)
  show ?thesis
    using load_dataset_no_cache_frame
            [of quiet_provider None "example_world\<lparr>dataset_cache := other_dataset\<rparr>" None]
          fresh cached
    by simp
qed

section \<open>Looking entries up\<close>

lemma upper_char_idem: "upper_char (upper_char c) = upper_char c"
  unfolding upper_char_def Let_def by (auto simp: of_char_of)

lemma str_upper_idem: "str_upper (str_upper s) = str_upper s"
  by (simp add: str_upper_def upper_char_idem)

lemma ASI_IDS_upper: "c \<in> set ASI_IDS \<Longrightarrow> str_upper c = c"
  unfolding ASI_IDS_def by (auto; code_simp)

lemma find_Some_holds: "find P xs = Some x \<Longrightarrow> P x \<and> x \<in> set xs"
  by (induction xs) (auto split: if_splits)

lemma find_has_id: "find (has_id a) es \<noteq> Some PyNone"
  using find_Some_holds[of "has_id a" es PyNone] by (auto simp: has_id_def)

text \<open>On entries that all carry an \<^verbatim>\<open>"id"\<close>, the loop is a search for the first match.\<close>

lemma find_entry_find:
  "list_all (has_field ''id'') es \<Longrightarrow>
   find_entry a es = Inr (case find (has_id a) es of None \<Rightarrow> PyNone | Some e \<Rightarrow> e)"
  by (induction es) (auto simp: has_field_def has_id_def split: sum.splits)

lemma get_entry_loaded:
  "load_entries prov None w = (Inr (PyList es), w1) \<Longrightarrow>
   get_entry prov asi_id w = (find_entry (str_upper asi_id) es, w1)"
  by (simp add: get_entry_def)

lemma get_entry_upper: "get_entry prov (str_upper asi_id) w = get_entry prov asi_id w"
  by (simp add: get_entry_def str_upper_idem)

lemma get_entry_wf:
  assumes "load_entries prov None w = (Inr (PyList es), w1)"
      and "list_all (has_field ''id'') es"
  shows "get_entry prov asi_id w =
           (Inr (case find (has_id (str_upper asi_id)) es of None \<Rightarrow> PyNone | Some e \<Rightarrow> e), w1)"
  using assms by (simp add: get_entry_loaded find_entry_find)

lemma load_entries_example:
  "load_entries quiet_provider None example_world = (Inr (PyList example_entries), example_loaded)"
  by (simp add: load_entries_def load_dataset_def example_world_def example_loaded_def Let_def
        get_data_path_def path_exists_def read_json_def example_dataset_def)

lemma example_entries_ids: "list_all (has_field ''id'') example_entries"
  by (simp add: example_entries_def example_entry_def has_field_def)

lemma upper_asi01: "str_upper ''asi01'' = ''ASI01''"
  by code_simp

lemma upper_asi99: "str_upper ''asi99'' = ''ASI99''"
  by code_simp

lemma find_example_asi01:
  "find (has_id ''ASI01'') example_entries =
     Some (example_entry ''ASI01'' ''Agent Goal Hijack''
             [''LLM01:2025 Prompt Injection'', ''LLM06:2025 Excessive Agency''])"
  by (simp add: example_entries_def example_entry_def has_id_def)

lemma find_example_asi99: "find (has_id ''ASI99'') example_entries = None"
  by (simp add: example_entries_def example_entry_def has_id_def)

lemma get_entry_example_asi01:
  "get_entry quiet_provider ''asi01'' example_world =
     (Inr (example_entry ''ASI01'' ''Agent Goal Hijack''
             [''LLM01:2025 Prompt Injection'', ''LLM06:2025 Excessive Agency'']), example_loaded)"
  by (simp add: get_entry_wf[OF load_entries_example example_entries_ids] upper_asi01
        find_example_asi01)

lemma get_entry_example_asi99:
  "get_entry quiet_provider ''asi99'' example_world = (Inr PyNone, example_loaded)"
  by (simp add: get_entry_wf[OF load_entries_example example_entries_ids] upper_asi99
        find_example_asi99)

text \<open>
  Claim C2. \<^verbatim>\<open>get_entry\<close> gives the same result for an identifier and for its upper-case
  form, in every state. Where the loaded entries are a list of dicts that each have an
  \<^verbatim>\<open>"id"\<close>, it returns the first entry, in list order, whose id equals the upper-cased
  identifier, and \<^verbatim>\<open>None\<close> (never an error) exactly when no entry matches; for a
  canonical id that some entry carries, the result is an entry, not \<^verbatim>\<open>None\<close>, with that id.
\<close>

theorem get_entry_first_match:
  "get_entry prov asi_id w = get_entry prov (str_upper asi_id) w \<and>
   (load_entries prov None w = (Inr (PyList es), w1) \<and> list_all (has_field ''id'') es \<longrightarrow>
      get_entry prov asi_id w =
        (Inr (case find (has_id (str_upper asi_id)) es of None \<Rightarrow> PyNone | Some e \<Rightarrow> e), w1) \<and>
      (fst (get_entry prov asi_id w) = Inr PyNone) = (\<not> list_ex (has_id (str_upper asi_id)) es) \<and>
      (c \<in> set ASI_IDS \<and> list_ex (has_id c) es \<longrightarrow>
         fst (get_entry prov c w) \<noteq> Inr PyNone \<and>
         (case fst (get_entry prov c w) of Inl err \<Rightarrow> False | Inr e \<Rightarrow> has_id c e)))"
proof -
  have absent: "(fst (get_entry prov s w) = Inr PyNone) = (\<not> list_ex (has_id (str_upper s)) es)"
    if "load_entries prov None w = (Inr (PyList es), w1)" "list_all (has_field ''id'') es" for s
    by (auto simp: get_entry_wf[OF that] list_ex_iff find_None_iff find_has_id
        split: option.splits dest: find_Some_holds)
  have canon: "fst (get_entry prov c w) \<noteq> Inr PyNone \<and>
            (case fst (get_entry prov c w) of Inl err \<Rightarrow> False | Inr e \<Rightarrow> has_id c e)"
    if "load_entries prov None w = (Inr (PyList es), w1)" "list_all (has_field ''id'') es"
       "c \<in> set ASI_IDS" "list_ex (has_id c) es"
    using that(3,4) absent[OF that(1,2), of c]
    by (auto simp: get_entry_wf[OF that(1,2)] ASI_IDS_upper find_None_iff list_ex_iff
        split: option.splits dest: find_Some_holds)
  show ?thesis
    using absent canon by (simp add: get_entry_upper get_entry_wf)
qed

theorem get_entry_first_match_witness:
  "load_entries quiet_provider None example_world = (Inr (PyList example_entries), example_loaded) \<and>
   list_all (has_field ''id'') example_entries \<and>
   ''ASI01'' \<in> set ASI_IDS \<and> list_ex (has_id ''ASI01'') example_entries \<and>
   get_entry quiet_provider ''asi01'' example_world =
     (Inr (example_entry ''ASI01'' ''Agent Goal Hijack''
             [''LLM01:2025 Prompt Injection'', ''LLM06:2025 Excessive Agency'']), example_loaded) \<and>
   get_entry quiet_provider ''asi01'' example_world = get_entry quiet_provider ''ASI01'' example_world \<and>
   fst (get_entry quiet_provider ''ASI01'' example_world) \<noteq> Inr PyNone"
proof -
  have ex: "list_ex (has_id ''ASI01'') example_entries" "''ASI01'' \<in> set ASI_IDS"
    by (simp_all add: example_entries_def example_entry_def has_id_def ASI_IDS_def)
  note m = get_entry_first_match [of quiet_provider "''asi01''" example_world example_entries
            example_loaded "''ASI01''"]
  have same: "get_entry quiet_provider ''asi01'' example_world =
              get_entry quiet_provider ''ASI01'' example_world"
    using m by (simp add: upper_asi01)
  have found: "get_entry quiet_provider ''asi01'' example_world =
     (Inr (example_entry ''ASI01'' ''Agent Goal Hijack''
             [''LLM01:2025 Prompt Injection'', ''LLM06:2025 Excessive Agency'']), example_loaded)"
    using m[THEN conjunct2]
    by (simp add: load_entries_example example_entries_ids ex upper_asi01 find_example_asi01)
  have present: "fst (get_entry quiet_provider ''ASI01'' example_world) \<noteq> Inr PyNone"
    using m[THEN conjunct2]
    by (simp add: load_entries_example example_entries_ids ex upper_asi01 find_example_asi01)
  show ?thesis
    by (intro conjI load_entries_example example_entries_ids ex same found present)
qed

section \<open>The accessors that require the entry\<close>

lemma py_getitem_not_ValueError: "py_getitem e k \<noteq> Inl (ValueError msg)"
  by (cases e) (simp_all split: option.splits)

text \<open>
  Claim C3. Whenever \<^verbatim>\<open>get_entry\<close> returns, each of \<^verbatim>\<open>get_mitigations\<close>,
  \<^verbatim>\<open>get_attack_scenarios\<close> and \<^verbatim>\<open>get_related_llm_entries\<close> raises \<^verbatim>\<open>ValueError\<close> if and
  only if the result of \<^verbatim>\<open>get_entry\<close> is \<^verbatim>\<open>None\<close> (the message is
  \<^verbatim>\<open>Entry not found:\<close> followed by the identifier as passed), and otherwise yields the
  entry's \<^verbatim>\<open>"mitigations"\<close>, \<^verbatim>\<open>"attack_scenarios"\<close> or \<^verbatim>\<open>"related_llm_entries"\<close>.
\<close>

theorem accessors_raise_iff_absent:
  "get_entry prov asi_id w = (Inr entry, w1) \<Longrightarrow>
   ((\<exists>msg. fst (get_mitigations prov asi_id w) = Inl (ValueError msg)) = (entry = PyNone)) \<and>
   ((\<exists>msg. fst (get_attack_scenarios prov asi_id w) = Inl (ValueError msg)) = (entry = PyNone)) \<and>
   ((\<exists>msg. fst (get_related_llm_entries prov asi_id w) = Inl (ValueError msg)) = (entry = PyNone)) \<and>
   (entry = PyNone \<longrightarrow>
      get_mitigations prov asi_id w = (Inl (ValueError (''Entry not found: '' @ asi_id)), w1) \<and>
      get_attack_scenarios prov asi_id w = (Inl (ValueError (''Entry not found: '' @ asi_id)), w1) \<and>
      get_related_llm_entries prov asi_id w = (Inl (ValueError (''Entry not found: '' @ asi_id)), w1)) \<and>
   (entry \<noteq> PyNone \<longrightarrow>
      get_mitigations prov asi_id w = (py_getitem entry ''mitigations'', w1) \<and>
      get_attack_scenarios prov asi_id w = (py_getitem entry ''attack_scenarios'', w1) \<and>
      get_related_llm_entries prov asi_id w = (py_getitem entry ''related_llm_entries'', w1))"
  by (simp add: get_mitigations_def get_attack_scenarios_def get_related_llm_entries_def
        py_getitem_not_ValueError)

theorem accessors_raise_iff_absent_witness:
  "get_entry quiet_provider ''asi99'' example_world = (Inr PyNone, example_loaded) \<and>
   get_mitigations quiet_provider ''asi99'' example_world =
     (Inl (ValueError ''Entry not found: asi99''), example_loaded) \<and>
   get_entry quiet_provider ''asi01'' example_world =
     (Inr (example_entry ''ASI01'' ''Agent Goal Hijack''
             [''LLM01:2025 Prompt Injection'', ''LLM06:2025 Excessive Agency'']), example_loaded) \<and>
   get_mitigations quiet_provider ''asi01'' example_world =
     (Inr (PyList [PyStr ''Mitigate ASI01'']), example_loaded) \<and>
   get_attack_scenarios quiet_provider ''asi01'' example_world =
     (Inr (PyList [PyDict [(''name'', PyStr ''Scenario''),
                           (''description'', PyStr ''Agent Goal Hijack'')]]), example_loaded) \<and>
   get_related_llm_entries quiet_provider ''asi01'' example_world =
     (Inr (PyList [PyStr ''LLM01:2025 Prompt Injection'', PyStr ''LLM06:2025 Excessive Agency'']),
      example_loaded)"
  using accessors_raise_iff_absent [OF get_entry_example_asi99]
        accessors_raise_iff_absent [OF get_entry_example_asi01]
  by (simp add: get_entry_example_asi99 get_entry_example_asi01 example_entry_def)

section \<open>The bulk mapping and the per-entry accessor\<close>

lemma dict_key_str: "(dict_key k = PyStr c) = (k = PyStr c)"
  by (cases k) auto

lemma find_snoc: "find P (xs @ [x]) = (case find P xs of Some y \<Rightarrow> Some y | None \<Rightarrow> if P x then Some x else None)"
  by (induction xs) auto

lemma build_mapping_last:
  "list_all (has_field ''related_llm_entries'') es \<Longrightarrow> list_all hashable_id es \<Longrightarrow>
   \<exists>m1. build_mapping es m = Inr m1 \<and>
        m1 (PyStr c) =
          (case find (has_id c) (rev es) of
             None \<Rightarrow> m (PyStr c)
           | Some e \<Rightarrow> (case py_getitem e ''related_llm_entries'' of Inl err \<Rightarrow> None | Inr v \<Rightarrow> Some v))"
proof (induction es arbitrary: m)
  case Nil
  then show ?case by simp
next
  case (Cons e es)
  from Cons.prems obtain k v where kv: "py_getitem e ''id'' = Inr k" "hashable k"
      "py_getitem e ''related_llm_entries'' = Inr v"
    by (auto simp: has_field_def hashable_id_def split: sum.splits)
  from Cons.prems have rest: "list_all (has_field ''related_llm_entries'') es" "list_all hashable_id es"
    by simp_all
  from Cons.IH[OF rest, of "m(dict_key k \<mapsto> v)"] obtain m1 where
    m1: "build_mapping es (m(dict_key k \<mapsto> v)) = Inr m1"
        "m1 (PyStr c) = (case find (has_id c) (rev es) of
             None \<Rightarrow> (m(dict_key k \<mapsto> v)) (PyStr c)
           | Some e \<Rightarrow> (case py_getitem e ''related_llm_entries'' of Inl err \<Rightarrow> None | Inr v \<Rightarrow> Some v))"
    by blast
  have hid: "has_id c e = (k = PyStr c)"
    using kv by (simp add: has_id_def)
  have upd: "(m(dict_key k \<mapsto> v)) (PyStr c) = (if k = PyStr c then Some v else m (PyStr c))"
    by (cases k) auto
  note at_c = m1(2)[unfolded upd]
  show ?case
    using kv m1(1) at_c by (simp add: find_snoc hid split: option.splits)
qed

lemma find_filter: "find P xs = (case filter P xs of [] \<Rightarrow> None | x # ys \<Rightarrow> Some x)"
  by (induction xs) auto

lemma find_rev_unique: "length (filter P xs) = 1 \<Longrightarrow> find P (rev xs) = find P xs"
proof -
  assume "length (filter P xs) = 1"
  then obtain x where x: "filter P xs = [x]"
    by (cases "filter P xs") auto
  then have "filter P (rev xs) = [x]"
    by (simp add: rev_filter[symmetric])
  with x show ?thesis by (simp add: find_filter)
qed


lemma hashable_id_has_id: "list_all hashable_id es \<Longrightarrow> list_all (has_field ''id'') es"
  by (induction es) (auto simp: hashable_id_def has_field_def split: sum.splits)

lemma get_asi_to_llm_mapping_loaded:
  "load_entries prov None w = (Inr (PyList es), w1) \<Longrightarrow>
   get_asi_to_llm_mapping prov w = (build_mapping es Map.empty, w1)"
  by (simp add: get_asi_to_llm_mapping_def)

lemma py_getitem_None: "py_getitem PyNone k = Inl TypeError"
  by simp

lemma load_dataset_stable:
  assumes "load_dataset prov None True w = (Inr data, w1)" and "data \<noteq> PyNone"
  shows "load_dataset prov None True w1 = (Inr data, w1)"
proof (cases "dataset_cache w \<noteq> PyNone")
  case True
  with assms(1) have "w1 = w" "dataset_cache w = data"
    by (auto simp: load_dataset_hit)
  with assms(2) show ?thesis by (simp add: load_dataset_hit)
next
  case False
  then have miss: "\<not> (True \<and> dataset_cache w \<noteq> PyNone)" by simp
  from assms(1) have "dataset_cache w1 = data"
    unfolding load_dataset_miss[OF miss] Let_def by (auto split: sum.splits)
  with assms(2) show ?thesis by (simp add: load_dataset_hit)
qed

lemma load_entries_stable:
  assumes "load_entries prov None w = (Inr es, w1)"
  shows "load_entries prov None w1 = (Inr es, w1)"
proof -
  from assms obtain data where d: "load_dataset prov None True w = (Inr data, w1)"
      "py_getitem data ''entries'' = Inr es"
    by (auto simp: load_entries_def split: prod.splits sum.splits)
  then have "data \<noteq> PyNone" by auto
  from load_dataset_stable[OF d(1) this] d(2) show ?thesis
    by (simp add: load_entries_def)
qed

lemma upper_ASI01: "str_upper ''ASI01'' = ''ASI01''"
  by code_simp

lemma load_entries_duplicate:
  "load_entries quiet_provider None duplicate_world = (Inr (PyList duplicate_entries), duplicate_world)"
  by (simp add: load_entries_def load_dataset_def duplicate_world_def)

lemma example_entries_wf:
  "list_all (has_field ''related_llm_entries'') example_entries"
  "list_all hashable_id example_entries"
  by (simp_all add: example_entries_def example_entry_def has_field_def hashable_id_def)

text \<open>
  Claim C4, as stated, at a concrete input. The entry list has two entries with id
  \<^verbatim>\<open>ASI01\<close>: the dict comprehension keeps the related entries of the last one, the scan
  of \<^verbatim>\<open>get_entry\<close> stops at the first, and the two results differ.
\<close>

theorem mapping_lookup_duplicate_counterexample:
  "load_entries quiet_provider None duplicate_world =
     (Inr (PyList duplicate_entries), duplicate_world) \<and>
   ''ASI01'' \<in> set ASI_IDS \<and>
   list_ex (has_id ''ASI01'') duplicate_entries \<and>
   fst (asi_to_llm_mapping_at quiet_provider (PyStr ''ASI01'') duplicate_world) =
     Inr (PyList [PyStr ''LLM06:2025 Excessive Agency'']) \<and>
   fst (get_related_llm_entries quiet_provider ''ASI01'' duplicate_world) =
     Inr (PyList [PyStr ''LLM01:2025 Prompt Injection'']) \<and>
   fst (asi_to_llm_mapping_at quiet_provider (PyStr ''ASI01'') duplicate_world) \<noteq>
     fst (get_related_llm_entries quiet_provider ''ASI01'' duplicate_world)"
proof -
  have m: "fst (asi_to_llm_mapping_at quiet_provider (PyStr ''ASI01'') duplicate_world) =
     Inr (PyList [PyStr ''LLM06:2025 Excessive Agency''])"
    by (simp add: asi_to_llm_mapping_at_def get_asi_to_llm_mapping_loaded[OF load_entries_duplicate]
          duplicate_entries_def example_entry_def mapping_getitem_def)
  have r: "fst (get_related_llm_entries quiet_provider ''ASI01'' duplicate_world) =
     Inr (PyList [PyStr ''LLM01:2025 Prompt Injection''])"
    by (simp add: get_related_llm_entries_def get_entry_loaded[OF load_entries_duplicate]
          upper_ASI01 duplicate_entries_def example_entry_def)
  have ex: "''ASI01'' \<in> set ASI_IDS" "list_ex (has_id ''ASI01'') duplicate_entries"
    by (simp_all add: ASI_IDS_def duplicate_entries_def example_entry_def has_id_def)
  show ?thesis
    by (simp add: load_entries_duplicate ex m r)
qed

text \<open>
  Claim C4, amended. For a canonical id that exactly one entry of the loaded list
  carries (every entry being a dict with a hashable \<^verbatim>\<open>"id"\<close> and a
  \<^verbatim>\<open>"related_llm_entries"\<close>), \<^verbatim>\<open>get_asi_to_llm_mapping()[id]\<close> and
  \<^verbatim>\<open>get_related_llm_entries(id)\<close> return the same value, without error, whether both are
  called in the same state or the second after the first.
\<close>

theorem mapping_agrees_with_lookup:
  assumes load: "load_entries prov None w = (Inr (PyList es), w1)"
      and rel: "list_all (has_field ''related_llm_entries'') es"
      and ids: "list_all hashable_id es"
      and c: "c \<in> set ASI_IDS"
      and once: "length (filter (has_id c) es) = 1"
  shows "asi_to_llm_mapping_at prov (PyStr c) w = get_related_llm_entries prov c w \<and>
         get_related_llm_entries prov c (snd (asi_to_llm_mapping_at prov (PyStr c) w)) =
           asi_to_llm_mapping_at prov (PyStr c) w \<and>
         (\<exists>v. fst (get_related_llm_entries prov c w) = Inr v)"
proof -
  from once obtain e where e: "filter (has_id c) es = [e]"
    by (cases "filter (has_id c) es") auto
  then have first: "find (has_id c) es = Some e"
    by (simp add: find_filter)
  have last: "find (has_id c) (rev es) = Some e"
    using first find_rev_unique[OF once] by simp
  from find_Some_holds[OF first] have mem: "e \<in> set es" and hid: "has_id c e"
    by simp_all
  from mem rel have "has_field ''related_llm_entries'' e"
    by (simp add: list_all_iff)
  then obtain v where v: "py_getitem e ''related_llm_entries'' = Inr v"
    by (cases "py_getitem e ''related_llm_entries''") (auto simp: has_field_def)
  from hid have ne: "e \<noteq> PyNone"
    by (auto simp: has_id_def)
  from build_mapping_last[OF rel ids, of Map.empty c] obtain m1 where
    m1: "build_mapping es Map.empty = Inr m1" "m1 (PyStr c) = Some v"
    by (auto simp: last v)
  have lhs: "asi_to_llm_mapping_at prov (PyStr c) w = (Inr v, w1)"
    by (simp add: asi_to_llm_mapping_at_def get_asi_to_llm_mapping_loaded[OF load] m1
          mapping_getitem_def)
  have entry: "\<And>w0. load_entries prov None w0 = (Inr (PyList es), w1) \<Longrightarrow>
                 get_entry prov c w0 = (Inr e, w1)"
    by (simp add: get_entry_wf hashable_id_has_id[OF ids] ASI_IDS_upper[OF c] first)
  have rhs: "\<And>w0. load_entries prov None w0 = (Inr (PyList es), w1) \<Longrightarrow>
                 get_related_llm_entries prov c w0 = (Inr v, w1)"
    by (simp add: get_related_llm_entries_def entry ne v)
  show ?thesis
    by (simp add: lhs rhs[OF load] rhs[OF load_entries_stable[OF load]])
qed

theorem mapping_agrees_with_lookup_witness:
  "load_entries quiet_provider None example_world = (Inr (PyList example_entries), example_loaded) \<and>
   list_all (has_field ''related_llm_entries'') example_entries \<and>
   list_all hashable_id example_entries \<and>
   ''ASI01'' \<in> set ASI_IDS \<and>
   length (filter (has_id ''ASI01'') example_entries) = 1 \<and>
   asi_to_llm_mapping_at quiet_provider (PyStr ''ASI01'') example_world =
     get_related_llm_entries quiet_provider ''ASI01'' example_world \<and>
   get_related_llm_entries quiet_provider ''ASI01'' example_world =
     (Inr (PyList [PyStr ''LLM01:2025 Prompt Injection'', PyStr ''LLM06:2025 Excessive Agency'']),
      example_loaded)"
proof -
  have c: "''ASI01'' \<in> set ASI_IDS"
    by (simp add: ASI_IDS_def)
  have once: "length (filter (has_id ''ASI01'') example_entries) = 1"
    by (simp add: example_entries_def example_entry_def has_id_def)
  have r: "get_related_llm_entries quiet_provider ''ASI01'' example_world =
     (Inr (PyList [PyStr ''LLM01:2025 Prompt Injection'', PyStr ''LLM06:2025 Excessive Agency'']),
      example_loaded)"
    by (simp add: get_related_llm_entries_def get_entry_wf[OF load_entries_example example_entries_ids]
          upper_ASI01 find_example_asi01) (simp add: example_entry_def)
  show ?thesis
    using mapping_agrees_with_lookup [OF load_entries_example example_entries_wf c once]
    by (simp add: load_entries_example example_entries_wf c once r)
qed

section \<open>Loading entries from an explicit path\<close>

lemma load_entries_path:
  "load_entries prov (Some fp) w =
     ((case fst (read_json w fp) of Inl e \<Rightarrow> Inl e | Inr data \<Rightarrow> py_get data ''entries'' data),
      snd (read_json w fp))"
  by (simp add: load_entries_def split: prod.splits sum.splits)

lemma load_entries_path_dict:
  "files w (resolve w fp) = Some (Inr (PyDict kvs)) \<Longrightarrow>
   fst (load_entries prov (Some fp) w) =
     Inr (case map_of kvs ''entries'' of None \<Rightarrow> PyDict kvs | Some v \<Rightarrow> v)"
  by (simp add: load_entries_path read_json_fst)

lemma load_entries_path_list:
  "files w (resolve w fp) = Some (Inr (PyList xs)) \<Longrightarrow>
   fst (load_entries prov (Some fp) w) = Inl AttributeError"
  by (simp add: load_entries_path read_json_fst)

lemma load_entries_no_path:
  "load_entries prov None w =
     (case load_dataset prov None True w of
        (Inl e, w1) \<Rightarrow> (Inl e, w1)
      | (Inr data, w1) \<Rightarrow> (py_getitem data ''entries'', w1))"
  by (simp add: load_entries_def)

text \<open>
  Claim C5, where the code departs from it. The file at the explicit path holds a bare
  list of entries at its top level; \<^verbatim>\<open>data.get("entries", data)\<close> is then called on a
  list, which has no method \<^verbatim>\<open>get\<close>, and \<^verbatim>\<open>load_entries\<close> raises \<^verbatim>\<open>AttributeError\<close>
  instead of returning the list.
\<close>

theorem load_entries_bare_list_raises:
  "files example_world [''tmp'', ''entries.json''] = Some (Inr (PyList example_entries)) \<and>
   load_entries quiet_provider (Some (AbsPath [''tmp'', ''entries.json''])) example_world =
     (Inl AttributeError, example_world\<lparr>trace := [ReadFile [''tmp'', ''entries.json'']]\<rparr>)"
  by (simp add: load_entries_path read_json_fst read_json_snd example_world_def)

section \<open>Generation and the working directory\<close>

lemma resolve_cwd: "cwd w1 = cwd w \<Longrightarrow> resolve w1 p = resolve w p"
  by (cases p) simp_all

lemma mkdir_ok:
  assumes "mkdir w p = Inr w1"
  shows "cwd w1 = cwd w" "files w1 = files w" "resolve w p \<in> dirs w1" "dirs w \<subseteq> dirs w1"
        "dataset_cache w1 = dataset_cache w"
  using assms by (auto simp: mkdir_def Let_def in_set_prefixes split: if_splits)

lemma run_parser_main_frame:
  "cwd (snd (run_parser_main prov w)) = cwd w"
  "dirs (snd (run_parser_main prov w)) = dirs w"
  "dataset_cache (snd (run_parser_main prov w)) = dataset_cache w"
  by (simp_all add: run_parser_main_def Let_def split: prod.splits)

lemma chdir_ok: "resolve w p \<in> dirs w \<Longrightarrow> chdir w p = Inr (w\<lparr>cwd := resolve w p\<rparr>)"
  by (simp add: chdir_def)

lemma generate_all_formats_unfold:
  "generate_all_formats prov output_dir w =
     (case mkdir w output_dir of
        Inl e \<Rightarrow> (Inl e, w)
      | Inr w1 \<Rightarrow>
          if cwd w \<in> dirs w1
          then (case fst (run_parser_main prov (w1\<lparr>cwd := resolve w output_dir\<rparr>)) of
                  Some e \<Rightarrow> Inl e
                | None \<Rightarrow> Inr (output_files output_dir),
                (snd (run_parser_main prov (w1\<lparr>cwd := resolve w output_dir\<rparr>)))\<lparr>cwd := cwd w\<rparr>)
          else (Inl FileNotFoundError, w1))"
proof (cases "mkdir w output_dir")
  case (Inl e)
  then show ?thesis by (simp add: generate_all_formats_def)
next
  case (Inr w1)
  note ok = mkdir_ok[OF Inr]
  have r: "resolve w1 output_dir = resolve w output_dir"
    by (rule resolve_cwd) (rule ok(1))
  show ?thesis
  proof (cases "cwd w \<in> dirs w1")
    case False
    then show ?thesis
      by (simp add: generate_all_formats_def Inr getcwd_def ok(1))
  next
    case True
    let ?w2 = "w1\<lparr>cwd := resolve w output_dir\<rparr>"
    have c2: "chdir w1 output_dir = Inr ?w2"
      using chdir_ok[of w1 output_dir] ok(3) by (simp add: r)
    obtain r w3 where run: "run_parser_main prov ?w2 = (r, w3)"
      by (cases "run_parser_main prov ?w2")
    from run_parser_main_frame(2)[of prov ?w2] True have "cwd w \<in> dirs w3"
      by (simp add: run)
    then have restore: "chdir w3 (AbsPath (cwd w)) = Inr (w3\<lparr>cwd := cwd w\<rparr>)"
      by (simp add: chdir_def)
    show ?thesis
      using True
      by (simp add: generate_all_formats_def Inr getcwd_def ok(1) c2 run restore
            split: option.splits)
  qed
qed

lemma mkdir_example: "mkdir example_world (RelPath [''out'']) = Inr example_made"
  by (simp add: mkdir_def example_made_def Let_def) (auto simp: example_world_def)

lemma cwd_example: "cwd example_world \<in> dirs example_made"
  by (simp add: example_made_def example_world_def)

lemma cwd_example_made: "cwd example_made = cwd example_world" "trace example_made = []"
  "files example_made = files example_world"
  by (simp_all add: example_made_def example_world_def)

lemma resolve_example: "resolve example_world (RelPath [''out'']) = [''home'', ''out'']"
  by (simp add: example_world_def)

lemma run_quiet:
  "run_parser_main quiet_provider w = (None, w\<lparr>trace := trace w @ [RunMain (cwd w)]\<rparr>)"
  by (simp add: run_parser_main_def quiet_provider_def)

lemma run_faulting:
  "run_parser_main faulting_provider w =
     (Some (OtherError ''generation failed''), w\<lparr>trace := trace w @ [RunMain (cwd w)]\<rparr>)"
  by (simp add: run_parser_main_def faulting_provider_def)

text \<open>
  Claim C7. On every exit path of \<^verbatim>\<open>generate_all_formats\<close> (a failing \<^verbatim>\<open>mkdir\<close>,
  \<^verbatim>\<open>getcwd\<close> or \<^verbatim>\<open>chdir\<close>, a parser that raises, a normal return) the working directory
  afterwards is the one before the call. Once the directory is made, the parser's
  \<^verbatim>\<open>main()\<close> runs in a world whose working directory is the output directory, and the
  world left is the parser's with the working directory put back; the parser's error,
  if any, is then raised. A normal return yields the eight fixed names joined to the
  output directory, whatever the parser wrote.
\<close>

theorem generate_all_formats_restores_cwd:
  "cwd (snd (generate_all_formats prov output_dir w)) = cwd w \<and>
   (\<forall>m. fst (generate_all_formats prov output_dir w) = Inr m \<longrightarrow> m = output_files output_dir) \<and>
   (mkdir w output_dir = Inr w1 \<and> cwd w \<in> dirs w1 \<longrightarrow>
      generate_all_formats prov output_dir w =
        (case fst (run_parser_main prov (w1\<lparr>cwd := resolve w output_dir\<rparr>)) of
           Some e \<Rightarrow> Inl e
         | None \<Rightarrow> Inr (output_files output_dir),
         (snd (run_parser_main prov (w1\<lparr>cwd := resolve w output_dir\<rparr>)))\<lparr>cwd := cwd w\<rparr>)) \<and>
   map fst (output_files output_dir) =
     [''full_json'', ''full_yaml'', ''entries_json'', ''entries_yaml'',
      ''mappings_json'', ''mappings_yaml'', ''simplified_json'', ''simplified_yaml''] \<and>
   map snd (output_files output_dir) =
     map (path_join output_dir)
       [''owasp_agentic_top10_full.json'', ''owasp_agentic_top10_full.yaml'',
        ''owasp_agentic_top10_entries.json'', ''owasp_agentic_top10_entries.yaml'',
        ''owasp_agentic_top10_mappings.json'', ''owasp_agentic_top10_mappings.yaml'',
        ''owasp_agentic_top10_simplified.json'', ''owasp_agentic_top10_simplified.yaml'']"
proof -
  have restored: "cwd (snd (generate_all_formats prov output_dir w)) = cwd w"
    by (auto simp: generate_all_formats_unfold split: sum.splits dest: mkdir_ok(1))
  have result: "\<forall>m. fst (generate_all_formats prov output_dir w) = Inr m \<longrightarrow> m = output_files output_dir"
    by (auto simp: generate_all_formats_unfold split: sum.splits option.splits if_splits)
  show ?thesis
    using restored result by (simp add: generate_all_formats_unfold output_files_def)
qed

theorem generate_all_formats_restores_cwd_witness:
  "mkdir example_world (RelPath [''out'']) = Inr example_made \<and>
   cwd example_world \<in> dirs example_made \<and>
   generate_all_formats quiet_provider (RelPath [''out'']) example_world =
     (Inr (output_files (RelPath [''out''])),
      example_made\<lparr>trace := [RunMain [''home'', ''out'']]\<rparr>) \<and>
   files (snd (generate_all_formats quiet_provider (RelPath [''out'']) example_world)) =
     files example_world \<and>
   fst (generate_all_formats faulting_provider (RelPath [''out'']) example_world) =
     Inl (OtherError ''generation failed'') \<and>
   cwd (snd (generate_all_formats faulting_provider (RelPath [''out'']) example_world)) =
     cwd example_world"
proof -
  note q = generate_all_formats_restores_cwd
             [of quiet_provider "RelPath [''out'']" example_world example_made]
  note f = generate_all_formats_restores_cwd
             [of faulting_provider "RelPath [''out'']" example_world example_made]
  have quiet: "generate_all_formats quiet_provider (RelPath [''out'']) example_world =
     (Inr (output_files (RelPath [''out''])),
      example_made\<lparr>trace := [RunMain [''home'', ''out'']]\<rparr>)"
    using q[THEN conjunct2, THEN conjunct2, THEN conjunct1]
    by (simp add: mkdir_example cwd_example run_quiet resolve_example cwd_example_made)
       (simp add: example_made_def example_world_def)
  have faulting: "fst (generate_all_formats faulting_provider (RelPath [''out'']) example_world) =
     Inl (OtherError ''generation failed'')"
    using f[THEN conjunct2, THEN conjunct2, THEN conjunct1]
    by (simp add: mkdir_example cwd_example run_faulting)
  have restored: "cwd (snd (generate_all_formats faulting_provider (RelPath [''out'']) example_world)) =
     cwd example_world"
    using f[THEN conjunct1] .
  show ?thesis
    by (simp add: mkdir_example cwd_example quiet faulting restored cwd_example_made)
qed

section \<open>Incidents\<close>

lemma filter_incidents_wf:
  "list_all (\<lambda>i. related_asi i \<noteq> None) incs \<Longrightarrow>
   filter_incidents a incs = Inr (filter (linked_to a) incs)"
proof (induction incs)
  case Nil
  then show ?case by simp
next
  case (Cons i incs)
  from Cons.prems obtain xs where xs: "py_get i ''related_asi'' (PyList []) = Inr (PyList xs)"
    by (auto simp: related_asi_def split: sum.splits pyval.splits)
  from Cons show ?case
    by (simp add: xs linked_to_def related_asi_def)
qed

lemma get_incidents_by_asi_loaded:
  "get_incidents prov w = (Inr (PyList incs), w1) \<Longrightarrow>
   get_incidents_by_asi prov asi_id w = (filter_incidents (str_upper asi_id) incs, w1)"
  by (simp add: get_incidents_by_asi_def)

lemma get_incidents_example:
  "get_incidents quiet_provider example_world = (Inr (PyList example_incidents), example_loaded)"
  by (simp add: get_incidents_def load_dataset_def example_world_def example_loaded_def Let_def
        get_data_path_def path_exists_def read_json_def example_dataset_def)

lemma example_incidents_wf: "list_all (\<lambda>i. related_asi i \<noteq> None) example_incidents"
  by (simp add: example_incidents_def related_asi_def)

lemma upper_asi06: "str_upper ''asi06'' = ''ASI06''"
  by code_simp

lemma upper_asi03: "str_upper ''asi03'' = ''ASI03''"
  by code_simp

text \<open>
  Claim C8. Where the loaded incidents are a list of dicts whose \<^verbatim>\<open>"related_asi"\<close>, if
  present, is a list, \<^verbatim>\<open>get_incidents_by_asi\<close> returns, in their original order, exactly
  the incidents whose \<^verbatim>\<open>"related_asi"\<close> contains the upper-cased identifier; the result
  is empty when no incident is linked to it.
\<close>

theorem get_incidents_by_asi_filter:
  "get_incidents prov w = (Inr (PyList incs), w1) \<Longrightarrow>
   list_all (\<lambda>i. related_asi i \<noteq> None) incs \<Longrightarrow>
   get_incidents_by_asi prov asi_id w = (Inr (filter (linked_to (str_upper asi_id)) incs), w1) \<and>
   (\<not> list_ex (linked_to (str_upper asi_id)) incs \<longrightarrow>
      get_incidents_by_asi prov asi_id w = (Inr [], w1))"
  by (auto simp: get_incidents_by_asi_loaded filter_incidents_wf list_ex_iff filter_empty_conv)

theorem get_incidents_by_asi_filter_witness:
  "get_incidents quiet_provider example_world = (Inr (PyList example_incidents), example_loaded) \<and>
   list_all (\<lambda>i. related_asi i \<noteq> None) example_incidents \<and>
   get_incidents_by_asi quiet_provider ''asi06'' example_world =
     (Inr [PyDict [(''name'', PyStr ''EchoLeak''),
                   (''related_asi'', PyList [PyStr ''ASI01'', PyStr ''ASI06''])],
           PyDict [(''name'', PyStr ''Poisoned memory''),
                   (''related_asi'', PyList [PyStr ''ASI06''])]], example_loaded) \<and>
   get_incidents_by_asi quiet_provider ''asi03'' example_world = (Inr [], example_loaded)"
  using get_incidents_by_asi_filter [OF get_incidents_example example_incidents_wf, of "''asi06''"]
        get_incidents_by_asi_filter [OF get_incidents_example example_incidents_wf, of "''asi03''"]
  by (simp add: get_incidents_example example_incidents_wf upper_asi06 upper_asi03
        example_incidents_def linked_to_def related_asi_def)

section \<open>The canonical id list\<close>

lemma client_inv_init: "client_inv \<lparr>heap = heap_init, results = []\<rparr>"
  by (simp add: client_inv_def heap_init_def)

lemma client_inv_step: "client_inv c \<Longrightarrow> client_inv (client_step op c)"
proof (cases op)
  case Call_list_entry_ids
  assume "client_inv c"
  then show ?thesis
    using Call_list_entry_ids
    by (auto simp: client_inv_def list_entry_ids_def list_all_iff)
next
  case (Mutate_result i xs)
  assume inv: "client_inv c"
  show ?thesis
  proof (cases "i < length (results c)")
    case True
    with inv have "ASI_IDS_addr < results c ! i"
      by (simp add: client_inv_def list_all_length)
    with inv True show ?thesis
      using Mutate_result by (simp add: client_inv_def)
  next
    case False
    with inv show ?thesis
      using Mutate_result by simp
  qed
qed

lemma client_inv_fold: "client_inv c \<Longrightarrow> client_inv (fold client_step ops c)"
  by (induction ops arbitrary: c) (simp_all add: client_inv_step)

lemma client_inv_run: "client_inv (client_run ops)"
  by (simp add: client_run_def client_inv_fold client_inv_init)

text \<open>
  Claim C9. After any history of calls of \<^verbatim>\<open>list_entry_ids\<close> and of mutations of the
  lists it returned, the next call returns a list holding the ten canonical ids in
  order; that list is a new object, neither \<^verbatim>\<open>ASI_IDS\<close> itself nor a list returned
  before, and \<^verbatim>\<open>ASI_IDS\<close> still holds the canonical ids before and after the call. The
  function takes the list store only, so no load and no dataset can influence it.
\<close>

theorem list_entry_ids_fresh_copy:
  "lists (snd (list_entry_ids (heap (client_run ops)))) (fst (list_entry_ids (heap (client_run ops)))) =
     [''ASI01'', ''ASI02'', ''ASI03'', ''ASI04'', ''ASI05'',
      ''ASI06'', ''ASI07'', ''ASI08'', ''ASI09'', ''ASI10''] \<and>
   lists (heap (client_run ops)) ASI_IDS_addr = ASI_IDS \<and>
   lists (snd (list_entry_ids (heap (client_run ops)))) ASI_IDS_addr = ASI_IDS \<and>
   fst (list_entry_ids (heap (client_run ops))) \<noteq> ASI_IDS_addr \<and>
   fst (list_entry_ids (heap (client_run ops))) \<notin> set (results (client_run ops))"
proof -
  have inv: "client_inv (client_run ops)"
    by (rule client_inv_run)
  then have "fst (list_entry_ids (heap (client_run ops))) \<notin> set (results (client_run ops))"
    by (auto simp: client_inv_def list_entry_ids_def list_all_iff)
  with inv show ?thesis
    by (auto simp: client_inv_def list_entry_ids_def ASI_IDS_def)
qed

theorem list_entry_ids_fresh_copy_witness:
  "results (client_run [Call_list_entry_ids, Mutate_result 0 [''ASI99''], Call_list_entry_ids]) = [1, 2] \<and>
   lists (heap (client_run [Call_list_entry_ids, Mutate_result 0 [''ASI99''], Call_list_entry_ids])) 1 =
     [''ASI99''] \<and>
   lists (heap (client_run [Call_list_entry_ids, Mutate_result 0 [''ASI99''], Call_list_entry_ids])) 2 =
     ASI_IDS \<and>
   lists (snd (list_entry_ids (heap (client_run
      [Call_list_entry_ids, Mutate_result 0 [''ASI99''], Call_list_entry_ids]))))
     (fst (list_entry_ids (heap (client_run
      [Call_list_entry_ids, Mutate_result 0 [''ASI99''], Call_list_entry_ids])))) = ASI_IDS"
  using list_entry_ids_fresh_copy
          [of "[Call_list_entry_ids, Mutate_result 0 [''ASI99''], Call_list_entry_ids]"]
  by (simp add: client_run_def list_entry_ids_def heap_init_def ASI_IDS_addr_def ASI_IDS_def)

section \<open>Threats for a component\<close>

lemma valid_types_value:
  "valid_types = ''code_executor, communication_layer, external_api, identity_system, llm_agent, memory_store, multi_agent, orchestrator, rag_system, supply_chain, tool_integration, user_interface''"
  by code_simp

lemma filter_entries_wf:
  "list_all (has_field ''id'') es \<Longrightarrow> filter_entries ids es = Inr (filter (id_in ids) es)"
proof (induction es)
  case Nil
  then show ?case by simp
next
  case (Cons e es)
  from Cons.prems obtain v where v: "py_getitem e ''id'' = Inr v"
    by (cases "py_getitem e ''id''") (auto simp: has_field_def)
  have "(v \<in> set (map PyStr ids)) = id_in ids e"
    by (auto simp: id_in_def has_id_def v list_ex_iff)
  with Cons show ?case
    by (simp add: v)
qed

lemma component_keys:
  "length COMPONENT_THREAT_MAP = 12" "distinct (map fst COMPONENT_THREAT_MAP)"
  by (simp_all add: COMPONENT_THREAT_MAP_def)

lemma get_threats_unknown:
  "str_lower ct \<notin> set (map fst COMPONENT_THREAT_MAP) \<Longrightarrow>
   get_threats_for_component prov ct data w =
     (Inl (ValueError (unknown_component_message (str_lower ct))), w)"
proof -
  assume "str_lower ct \<notin> set (map fst COMPONENT_THREAT_MAP)"
  then have "map_of COMPONENT_THREAT_MAP (str_lower ct) = None"
    by (simp add: map_of_eq_None_iff)
  then show ?thesis
    by (simp add: get_threats_for_component_def)
qed

lemma get_threats_given:
  assumes "map_of COMPONENT_THREAT_MAP (str_lower ct) = Some ids"
      and "data \<noteq> PyNone" and "py_getitem data ''entries'' = Inr (PyList es)"
      and "list_all (has_field ''id'') es"
  shows "get_threats_for_component prov ct data w = (Inr (filter (id_in ids) es), w)"
  using assms by (simp add: get_threats_for_component_def filter_entries_wf)

lemma get_threats_loaded:
  assumes "map_of COMPONENT_THREAT_MAP (str_lower ct) = Some ids"
      and "load_dataset prov None True w = (Inr d, w1)"
      and "py_getitem d ''entries'' = Inr (PyList es)"
      and "list_all (has_field ''id'') es"
  shows "get_threats_for_component prov ct PyNone w = (Inr (filter (id_in ids) es), w1)"
  using assms by (simp add: get_threats_for_component_def filter_entries_wf)

lemma lower_examples:
  "str_lower ''LLM_Agent'' = ''llm_agent''"
  "str_lower ''nonexistent_type'' = ''nonexistent_type''"
  by code_simp+

lemma map_of_llm_agent:
  "map_of COMPONENT_THREAT_MAP ''llm_agent'' = Some [''ASI01'', ''ASI05'', ''ASI06'', ''ASI10'']"
  by (simp add: COMPONENT_THREAT_MAP_def)

lemma nonexistent_type: "''nonexistent_type'' \<notin> fst ` set COMPONENT_THREAT_MAP"
  by (simp add: COMPONENT_THREAT_MAP_def)

lemma filter_llm_agent:
  "map (\<lambda>e. py_getitem e ''id'') (filter (id_in [''ASI01'', ''ASI05'', ''ASI06'', ''ASI10'']) example_entries) =
     [Inr (PyStr ''ASI01''), Inr (PyStr ''ASI05''), Inr (PyStr ''ASI06''), Inr (PyStr ''ASI10'')]"
  "map (\<lambda>e. py_getitem e ''id'')
     (filter (id_in [''ASI01'', ''ASI05'', ''ASI06'', ''ASI10'']) (rev example_entries)) =
     [Inr (PyStr ''ASI10''), Inr (PyStr ''ASI06''), Inr (PyStr ''ASI05''), Inr (PyStr ''ASI01'')]"
  by (simp_all add: example_entries_def example_entry_def id_in_def has_id_def)

lemma load_dataset_example:
  "load_dataset quiet_provider None True example_world = (Inr example_dataset, example_loaded)"
  by (simp add: load_dataset_def example_world_def example_loaded_def Let_def
        get_data_path_def path_exists_def read_json_def)

lemma example_dataset_entries:
  "py_getitem example_dataset ''entries'' = Inr (PyList example_entries)"
  "py_getitem reversed_dataset ''entries'' = Inr (PyList (rev example_entries))"
  "reversed_dataset \<noteq> PyNone"
  by (simp_all add: example_dataset_def reversed_dataset_def)

text \<open>
  Claim C1. \<^verbatim>\<open>COMPONENT_THREAT_MAP\<close> has 12 distinct keys. \<^verbatim>\<open>get_threats_for_component\<close>
  lower-cases the component type; if the result is not one of the keys it raises
  \<^verbatim>\<open>ValueError\<close> with a message that names the type and lists the twelve valid types,
  and leaves the state alone. Otherwise, on a dataset (the one given, or the one
  \<^verbatim>\<open>load_dataset()\<close> returns when none is given) whose \<^verbatim>\<open>"entries"\<close> is a list of dicts
  that each have an \<^verbatim>\<open>"id"\<close>, it returns the entries whose id is in the mapped subset,
  in the order of the dataset's entries.
\<close>

theorem get_threats_for_component_filter:
  "length COMPONENT_THREAT_MAP = 12 \<and> distinct (map fst COMPONENT_THREAT_MAP) \<and>
   (str_lower ct \<notin> set (map fst COMPONENT_THREAT_MAP) \<longrightarrow>
      get_threats_for_component prov ct data w =
        (Inl (ValueError (''Unknown component type: '' @ [CHR 0x27] @ str_lower ct @ [CHR 0x27] @
           ''. Valid types: code_executor, communication_layer, external_api, identity_system, llm_agent, memory_store, multi_agent, orchestrator, rag_system, supply_chain, tool_integration, user_interface'')), w)) \<and>
   (map_of COMPONENT_THREAT_MAP (str_lower ct) = Some ids \<and> list_all (has_field ''id'') es \<longrightarrow>
      (data \<noteq> PyNone \<and> py_getitem data ''entries'' = Inr (PyList es) \<longrightarrow>
         get_threats_for_component prov ct data w = (Inr (filter (id_in ids) es), w)) \<and>
      (load_dataset prov None True w = (Inr d, w1) \<and> py_getitem d ''entries'' = Inr (PyList es) \<longrightarrow>
         get_threats_for_component prov ct PyNone w = (Inr (filter (id_in ids) es), w1)))"
  using get_threats_unknown[of ct prov data w] get_threats_given[of ct ids data es prov w]
        get_threats_loaded[of ct ids prov w d w1 es]
  by (simp add: component_keys unknown_component_message_def valid_types_value)

theorem get_threats_for_component_filter_witness:
  "str_lower ''nonexistent_type'' \<notin> set (map fst COMPONENT_THREAT_MAP) \<and>
   fst (get_threats_for_component quiet_provider ''nonexistent_type'' PyNone example_world) =
     Inl (ValueError (''Unknown component type: '' @ [CHR 0x27] @ ''nonexistent_type'' @ [CHR 0x27] @
        ''. Valid types: code_executor, communication_layer, external_api, identity_system, llm_agent, memory_store, multi_agent, orchestrator, rag_system, supply_chain, tool_integration, user_interface'')) \<and>
   map_of COMPONENT_THREAT_MAP (str_lower ''LLM_Agent'') = Some [''ASI01'', ''ASI05'', ''ASI06'', ''ASI10''] \<and>
   load_dataset quiet_provider None True example_world = (Inr example_dataset, example_loaded) \<and>
   py_getitem example_dataset ''entries'' = Inr (PyList example_entries) \<and>
   list_all (has_field ''id'') example_entries \<and>
   (case fst (get_threats_for_component quiet_provider ''LLM_Agent'' PyNone example_world) of
      Inl err \<Rightarrow> []
    | Inr es \<Rightarrow> map (\<lambda>e. py_getitem e ''id'') es) =
     [Inr (PyStr ''ASI01''), Inr (PyStr ''ASI05''), Inr (PyStr ''ASI06''), Inr (PyStr ''ASI10'')] \<and>
   (case fst (get_threats_for_component quiet_provider ''LLM_Agent'' reversed_dataset example_world) of
      Inl err \<Rightarrow> []
    | Inr es \<Rightarrow> map (\<lambda>e. py_getitem e ''id'') es) =
     [Inr (PyStr ''ASI10''), Inr (PyStr ''ASI06''), Inr (PyStr ''ASI05''), Inr (PyStr ''ASI01'')]"
proof -
  note u = get_threats_for_component_filter
             [where ct = "''nonexistent_type''" and prov = quiet_provider and data = PyNone
                and w = example_world, THEN conjunct2, THEN conjunct2, THEN conjunct1]
  note l = get_threats_for_component_filter
             [where ct = "''LLM_Agent''" and prov = quiet_provider and data = PyNone
                and w = example_world and ids = "[''ASI01'', ''ASI05'', ''ASI06'', ''ASI10'']"
                and es = example_entries and d = example_dataset and ?w1.0 = example_loaded,
              THEN conjunct2, THEN conjunct2, THEN conjunct2]
  note g = get_threats_for_component_filter
             [where ct = "''LLM_Agent''" and prov = quiet_provider and data = reversed_dataset
                and w = example_world and ids = "[''ASI01'', ''ASI05'', ''ASI06'', ''ASI10'']"
                and es = "rev example_entries" and d = example_dataset and ?w1.0 = example_loaded,
              THEN conjunct2, THEN conjunct2, THEN conjunct2]
  have unknown: "fst (get_threats_for_component quiet_provider ''nonexistent_type'' PyNone example_world) =
     Inl (ValueError (''Unknown component type: '' @ [CHR 0x27] @ ''nonexistent_type'' @ [CHR 0x27] @
        ''. Valid types: code_executor, communication_layer, external_api, identity_system, llm_agent, memory_store, multi_agent, orchestrator, rag_system, supply_chain, tool_integration, user_interface''))"
    using u by (simp add: lower_examples nonexistent_type)
  have loaded: "get_threats_for_component quiet_provider ''LLM_Agent'' PyNone example_world =
     (Inr (filter (id_in [''ASI01'', ''ASI05'', ''ASI06'', ''ASI10'']) example_entries), example_loaded)"
    using l by (simp add: lower_examples map_of_llm_agent example_entries_ids load_dataset_example
                  example_dataset_entries)
  have given: "get_threats_for_component quiet_provider ''LLM_Agent'' reversed_dataset example_world =
     (Inr (filter (id_in [''ASI01'', ''ASI05'', ''ASI06'', ''ASI10'']) (rev example_entries)), example_world)"
    using g by (simp add: lower_examples map_of_llm_agent example_entries_ids
                  example_dataset_entries)
  show ?thesis
    by (simp add: unknown loaded given lower_examples nonexistent_type map_of_llm_agent
          load_dataset_example example_dataset_entries example_entries_ids filter_llm_agent)
qed

end
